theory Spec2Isabelle
  imports Complex_Main
begin

section \<open>Python numbers and failures\<close>

text \<open>
  The program is Python. Its numbers are Python floats (and ints that are promoted to
  floats by the first multiplication with \<open>pi\<close> or by true division). They are modelled
  by the real numbers: rounding, overflow, infinities and NaN are outside the model, so
  every result below is about the exact values of the formulas the code evaluates. Where
  the doubles of the program round, the two differ: for a stocky column the double
  \<open>1 + lamb ** (2 * n)\<close> rounds to 1.0 and the program returns \<open>phi * area * fy\<close>
  itself, while the exact value is strictly smaller (lemma \<open>spec_P_r_bounds\<close>).
  Whatever raises in Python is a value \<open>Inl e\<close> of the result type; a normal return
  is \<open>Inr v\<close>.
\<close>

datatype py_error =
    ZeroDivisionError
  | ValueError
  | UnboundLocalError
  | ComplexResult

text \<open>
  \<open>ComplexResult\<close> is not a Python exception: a negative float raised to a
  non-integral power evaluates to a complex number, which has no place among the reals.
  No modelled function reaches it (lemma \<open>factored_axial_capacity_never_complex\<close>).
\<close>

definition bind_r :: "py_error + 'a \<Rightarrow> ('a \<Rightarrow> py_error + 'b) \<Rightarrow> py_error + 'b" where
  "bind_r m f = (case m of Inl e \<Rightarrow> Inl e | Inr v \<Rightarrow> f v)"

text \<open>True division \<open>a / b\<close>: raises ZeroDivisionError on a zero divisor.\<close>

definition py_div :: "real \<Rightarrow> real \<Rightarrow> py_error + real" where
  "py_div a b = (if b = 0 then Inl ZeroDivisionError else Inr (a / b))"

text \<open>\<open>math.sqrt\<close>: raises ValueError (math domain error) on a negative argument.\<close>

definition py_sqrt :: "real \<Rightarrow> py_error + real" where
  "py_sqrt x = (if x < 0 then Inl ValueError else Inr (sqrt x))"

text \<open>
  The power operator \<open>x ** y\<close> on floats: a zero base with a negative exponent raises
  ZeroDivisionError, \<open>0 ** 0\<close> is 1, and a negative base is raised to an integral
  exponent only. The value is the exact real power: the OverflowError that the float
  operator raises on a result beyond the largest double, and the rounding of a result,
  are not modelled.
\<close>

definition py_pow :: "real \<Rightarrow> real \<Rightarrow> py_error + real" where
  "py_pow x y =
     (if 0 < x then Inr (x powr y)
      else if x = 0 then
        (if y < 0 then Inl ZeroDivisionError else if y = 0 then Inr 1 else Inr 0)
      else if y \<in> \<int> then
        (if even \<lfloor>y\<rfloor> then Inr ((- x) powr y) else Inr (- ((- x) powr y)))
      else Inl ComplexResult)"

text \<open>
  \<open>max\<close> over a non-empty list literal, given as its first element and the rest:
  the running maximum is replaced only by a strictly larger item.
\<close>

definition py_max :: "real \<Rightarrow> real list \<Rightarrow> real" where
  "py_max x xs = foldl (\<lambda>m item. if m < item then item else m) x xs"

text \<open>\<open>str.lower\<close> on the ASCII letters; every other character is kept.\<close>

definition char_lower :: "char \<Rightarrow> char" where
  "char_lower c =
     (case map_of (zip ''ABCDEFGHIJKLMNOPQRSTUVWXYZ'' ''abcdefghijklmnopqrstuvwxyz'') c of
        None \<Rightarrow> c
      | Some l \<Rightarrow> l)"

definition lower :: "string \<Rightarrow> string" where
  "lower s = map char_lower s"

section \<open>columns.py\<close>

text \<open>
  The dataclasses. A field \<open>f\<close> of \<open>Load\<close> is \<open>load_f\<close> here, a field of
  \<open>Column\<close> is \<open>col_f\<close>, and the fields \<open>SteelColumn\<close> adds are \<open>sc_f\<close>, which
  leaves the parameter names of the free functions (\<open>area\<close>, \<open>L\<close>, \<open>E\<close>, \<open>phi\<close>)
  to the variables of the theorems.
\<close>

record Load =
  load_D :: real
  load_L :: real
  load_S :: real
  load_W :: real
  load_E :: real

record Column =
  col_height :: real
  col_area :: real
  col_Ix :: real
  col_Iy :: real
  col_kx :: real
  col_ky :: real
  col_E :: real

record SteelColumn = Column +
  sc_column_tag :: string
  sc_fy :: real
  sc_axial_loads :: Load
  sc_phi :: real

subsection \<open>Functions\<close>

definition max_factored_load :: "Load \<Rightarrow> real" where
  "max_factored_load load =
     py_max (1.4 * load_D load)
       [1.25 * load_D load + 1.5 * load_L load,
        1.25 * load_D load + 1.5 * load_L load + 1.0 * load_S load,
        1.25 * load_D load + 1.5 * load_S load + 1.0 * load_L load]"

definition radius_of_gyration :: "real \<Rightarrow> real \<Rightarrow> py_error + real" where
  "radius_of_gyration I A = bind_r (py_div I A) (\<lambda>q. py_sqrt q)"

definition eulerbucklingload :: "real \<Rightarrow> real \<Rightarrow> real \<Rightarrow> real \<Rightarrow> py_error + real" where
  "eulerbucklingload E I k L =
     bind_r (py_pow pi 2) (\<lambda>pi2.
     bind_r (py_pow L 2) (\<lambda>L2.
     py_div (pi2 * E * I) (k * L2)))"

definition factored_axial_capacity ::
  "real \<Rightarrow> real \<Rightarrow> real \<Rightarrow> real \<Rightarrow> real \<Rightarrow> real \<Rightarrow> real \<Rightarrow> real \<Rightarrow> real \<Rightarrow> real \<Rightarrow> py_error + real" where
  "factored_axial_capacity area I_x I_y k_x k_y L E f_y n phi =
     bind_r (eulerbucklingload E I_x k_x L) (\<lambda>P_E_x.
     bind_r (py_div P_E_x area) (\<lambda>F_e_x.
     bind_r (eulerbucklingload E I_y k_y L) (\<lambda>P_E_y.
     bind_r (py_div P_E_y area) (\<lambda>F_e_y.
     let F_e = min F_e_x F_e_y in
     bind_r (py_div f_y F_e) (\<lambda>ratio.
     bind_r (py_sqrt ratio) (\<lambda>lamb.
     bind_r (py_pow lamb (2 * n)) (\<lambda>lamb_2n.
     bind_r (py_div (- 1) n) (\<lambda>expo.
     bind_r (py_pow (1 + lamb_2n) expo) (\<lambda>factor.
     Inr (phi * area * f_y * factor))))))))))"

subsection \<open>Methods of Column\<close>

text \<open>
  Both methods bind a local (\<open>r\<close>, \<open>P_E\<close>) in an \<open>if\<close>/\<open>elif\<close> that has no
  \<open>else\<close>, and then return it. The \<open>if\<close>/\<open>elif\<close> statement is a function of its
  own here: it yields the local after the statement, \<open>Some\<close> value when a branch bound it
  and \<open>None\<close> while it is unbound, or the error of the call in the branch. The
  \<open>return\<close> reads the local, and reading an unbound local raises UnboundLocalError.
\<close>

definition return_local :: "'a option \<Rightarrow> py_error + 'a" where
  "return_local v = (case v of None \<Rightarrow> Inl UnboundLocalError | Some r \<Rightarrow> Inr r)"

definition radius_of_gyration_local :: "'a Column_scheme \<Rightarrow> string \<Rightarrow> py_error + real option" where
  "radius_of_gyration_local self axis =
     (if lower axis = ''x'' then
        bind_r (radius_of_gyration (col_Ix self) (col_area self)) (\<lambda>r. Inr (Some r))
      else if lower axis = ''y'' then
        bind_r (radius_of_gyration (col_Iy self) (col_area self)) (\<lambda>r. Inr (Some r))
      else Inr None)"

definition Column_radius_of_gyration :: "'a Column_scheme \<Rightarrow> string \<Rightarrow> py_error + real" where
  "Column_radius_of_gyration self axis =
     bind_r (radius_of_gyration_local self axis) return_local"

definition euler_buckling_load_local :: "'a Column_scheme \<Rightarrow> string \<Rightarrow> py_error + real option" where
  "euler_buckling_load_local self axis =
     (if lower axis = ''x'' then
        bind_r (eulerbucklingload (col_E self) (col_Ix self) (col_kx self) (col_height self))
          (\<lambda>P_E. Inr (Some P_E))
      else if lower axis = ''y'' then
        bind_r (eulerbucklingload (col_E self) (col_Iy self) (col_ky self) (col_height self))
          (\<lambda>P_E. Inr (Some P_E))
      else Inr None)"

definition Column_euler_buckling_load :: "'a Column_scheme \<Rightarrow> string \<Rightarrow> py_error + real" where
  "Column_euler_buckling_load self axis =
     bind_r (euler_buckling_load_local self axis) return_local"

subsection \<open>Methods of SteelColumn\<close>

definition SteelColumn_factored_axial_load :: "SteelColumn \<Rightarrow> real" where
  "SteelColumn_factored_axial_load self = max_factored_load (sc_axial_loads self)"

text \<open>
  The method passes nine arguments: \<open>phi\<close> is left to the default 0.9 of the free
  function, whatever the column's own \<open>phi\<close> field holds.
\<close>

definition SteelColumn_factored_axial_capacity :: "SteelColumn \<Rightarrow> real \<Rightarrow> py_error + real" where
  "SteelColumn_factored_axial_capacity self n =
     factored_axial_capacity (col_area self) (col_Ix self) (col_Iy self) (col_kx self)
       (col_ky self) (col_height self) (col_E self) (sc_fy self) n 0.9"

definition SteelColumn_factored_dcr :: "SteelColumn \<Rightarrow> real \<Rightarrow> py_error + real" where
  "SteelColumn_factored_dcr self n =
     (let demand = SteelColumn_factored_axial_load self in
      bind_r (SteelColumn_factored_axial_capacity self n) (\<lambda>capacity.
      py_div demand capacity))"

subsection \<open>Examples\<close>

text \<open>The example values of the module that the tests use.\<close>

definition C00 :: Column where
  "C00 = \<lparr>col_height = 0, col_area = 0, col_Ix = 0, col_Iy = 0, col_kx = 0, col_ky = 0, col_E = 0\<rparr>"

definition C01 :: Column where
  "C01 = \<lparr>col_height = 4800, col_area = 120000, col_Ix = 1600000000, col_Iy = 900000000,
          col_kx = 1, col_ky = 1, col_E = 19.2\<rparr>"

definition SC01 :: SteelColumn where
  "SC01 = \<lparr>col_height = 3250, col_area = 16500, col_Ix = 308000000, col_Iy = 100000000,
           col_kx = 1, col_ky = 1, col_E = 200000, sc_column_tag = ''W310x129'', sc_fy = 345,
           sc_axial_loads = \<lparr>load_D = 820000, load_L = 1045100, load_S = 0, load_W = 0, load_E = 0\<rparr>,
           sc_phi = 0.9\<rparr>"

definition SC00 :: SteelColumn where
  "SC00 = \<lparr>col_height = 0, col_area = 0, col_Ix = 0, col_Iy = 0,
           col_kx = 0, col_ky = 0, col_E = 0, sc_column_tag = ''CNull'', sc_fy = 345,
           sc_axial_loads = \<lparr>load_D = 0, load_L = 0, load_S = 0, load_W = 0, load_E = 0\<rparr>,
           sc_phi = 0.9\<rparr>"

section \<open>sample_app_module.py\<close>

text \<open>
  \<open>list(range(start, stop, step))\<close> on ints: a zero step raises ValueError, a positive
  step counts up while the item is below \<open>stop\<close>, a negative step counts down while
  it is above.
\<close>

function range_up :: "int \<Rightarrow> int \<Rightarrow> int \<Rightarrow> int list" where
  "range_up start stop step =
     (if 0 < step \<and> start < stop then start # range_up (start + step) stop step else [])"
  by pat_completeness auto
termination
  by (relation "measure (\<lambda>(start, stop, step). nat (stop - start))") auto

function range_down :: "int \<Rightarrow> int \<Rightarrow> int \<Rightarrow> int list" where
  "range_down start stop step =
     (if step < 0 \<and> stop < start then start # range_down (start + step) stop step else [])"
  by pat_completeness auto
termination
  by (relation "measure (\<lambda>(start, stop, step). nat (start - stop))") auto

definition py_range :: "int \<Rightarrow> int \<Rightarrow> int \<Rightarrow> py_error + int list" where
  "py_range start stop step =
     (if step = 0 then Inl ValueError
      else if 0 < step then Inr (range_up start stop step)
      else Inr (range_down start stop step))"

text \<open>
  The \<open>for\<close> loop of \<open>column_pr_over_height_range\<close>: its state is the column, whose
  height the body overwrites, and the list \<open>y_values\<close> it appends to. An evaluation
  that raises ends the loop and the call.
\<close>

fun sweep_loop :: "SteelColumn \<Rightarrow> real list \<Rightarrow> int list \<Rightarrow> py_error + (SteelColumn \<times> real list)" where
  "sweep_loop test_column y_values [] = Inr (test_column, y_values)"
| "sweep_loop test_column y_values (x_value # rest) =
     (let test_column' = test_column\<lparr>col_height := real_of_int x_value\<rparr> in
      bind_r (SteelColumn_factored_axial_capacity test_column' 1.34) (\<lambda>pr.
      sweep_loop test_column' (y_values @ [pr]) rest))"

definition column_pr_over_height_range ::
  "int \<Rightarrow> int \<Rightarrow> int \<Rightarrow> string \<Rightarrow> real \<Rightarrow> real \<Rightarrow> real \<Rightarrow> real \<Rightarrow> real
     \<Rightarrow> py_error + (int list \<times> real list)" where
  "column_pr_over_height_range min_height max_height interval column_tag area i_x i_y E fy =
     bind_r (py_range min_height max_height interval) (\<lambda>x_values.
     let test_column =
       \<lparr>col_height = real_of_int min_height, col_area = area, col_Ix = i_x, col_Iy = i_y,
        col_kx = 1, col_ky = 1, col_E = E, sc_column_tag = column_tag, sc_fy = fy,
        sc_axial_loads = \<lparr>load_D = 0, load_L = 0, load_S = 0, load_W = 0, load_E = 0\<rparr>,
        sc_phi = 0.9\<rparr>
     in
     bind_r (sweep_loop test_column [] x_values) (\<lambda>(test_column', y_values).
     Inr (x_values, y_values)))"

text \<open>The returned dictionary is a map from its keys to the pairs of lists.\<close>

definition compare_two_columns ::
  "int \<Rightarrow> int \<Rightarrow> int \<Rightarrow> real \<Rightarrow> real \<Rightarrow> real \<Rightarrow> real \<Rightarrow> real \<Rightarrow> real \<Rightarrow> real \<Rightarrow> real \<Rightarrow> real \<Rightarrow> real
     \<Rightarrow> py_error + (string \<rightharpoonup> int list \<times> real list)" where
  "compare_two_columns min_height max_height interval area_a i_x_a i_y_a E_a fy_a
       area_b i_x_b i_y_b E_b fy_b =
     bind_r (column_pr_over_height_range min_height max_height interval ''Column A''
               area_a i_x_a i_y_a E_a fy_a) (\<lambda>(x_values_a, y_values_a).
     bind_r (column_pr_over_height_range min_height max_height interval ''Column B''
               area_b i_x_b i_y_b E_b fy_b) (\<lambda>(x_values_b, y_values_b).
     Inr (Map.empty(''a'' \<mapsto> (x_values_a, y_values_a), ''b'' \<mapsto> (x_values_b, y_values_b)))))"

section \<open>The formulas of the specification\<close>

text \<open>
  The specification's formulas for the factored resistance, in its own words and
  independent of the code: the elastic buckling stresses about the two axes, their minimum
  \<open>F_e\<close>, the slenderness \<open>lambda = sqrt (fy / F_e)\<close> and
  \<open>Pr = phi * area * fy * (1 + lambda^(2n))^(-1/n)\<close>. The code is compared with them.
\<close>

definition spec_F_e :: "real \<Rightarrow> real \<Rightarrow> real \<Rightarrow> real \<Rightarrow> real \<Rightarrow> real \<Rightarrow> real \<Rightarrow> real" where
  "spec_F_e area Ix Iy kx ky L E =
     min (pi ^ 2 * E * Ix / (kx * L ^ 2) / area) (pi ^ 2 * E * Iy / (ky * L ^ 2) / area)"

definition spec_lambda :: "real \<Rightarrow> real \<Rightarrow> real \<Rightarrow> real \<Rightarrow> real \<Rightarrow> real \<Rightarrow> real \<Rightarrow> real \<Rightarrow> real" where
  "spec_lambda area Ix Iy kx ky L E fy = sqrt (fy / spec_F_e area Ix Iy kx ky L E)"

definition spec_P_r ::
  "real \<Rightarrow> real \<Rightarrow> real \<Rightarrow> real \<Rightarrow> real \<Rightarrow> real \<Rightarrow> real \<Rightarrow> real \<Rightarrow> real \<Rightarrow> real \<Rightarrow> real" where
  "spec_P_r area Ix Iy kx ky L E fy n phi =
     phi * area * fy * (1 + spec_lambda area Ix Iy kx ky L E fy powr (2 * n)) powr (- 1 / n)"

section \<open>Basic facts\<close>

lemma bind_r_Inr [simp]: "bind_r (Inr v) f = f v"
  by (simp add: bind_r_def)

lemma bind_r_Inl [simp]: "bind_r (Inl e) f = Inl e"
  by (simp add: bind_r_def)

lemma py_pow_two: "py_pow x 2 = Inr (x ^ 2)"
proof -
  have "x < 0 \<Longrightarrow> (- x) powr 2 = x ^ 2"
    using powr_numeral [of "- x" "num.Bit0 num.One"] by simp
  moreover have "0 < x \<Longrightarrow> x powr 2 = x ^ 2"
    using powr_numeral [of x "num.Bit0 num.One"] by simp
  ultimately show ?thesis
    by (cases "0 < x"; cases "x = 0") (auto simp: py_pow_def)
qed

lemma eulerbucklingload_eq:
  "eulerbucklingload E I k L = py_div (pi ^ 2 * E * I) (k * L ^ 2)"
  by (simp add: eulerbucklingload_def py_pow_two)

section \<open>The capacity formula, step by step\<close>

lemma py_pow_pos_base: "0 < x \<Longrightarrow> py_pow x y = Inr (x powr y)"
  by (simp add: py_pow_def)

lemma fac_steps:
  assumes "area \<noteq> 0" "kx \<noteq> 0" "ky \<noteq> 0" "L \<noteq> 0"
  shows "factored_axial_capacity area Ix Iy kx ky L E fy n phi =
     bind_r (py_div fy (spec_F_e area Ix Iy kx ky L E)) (\<lambda>ratio.
     bind_r (py_sqrt ratio) (\<lambda>lamb.
     bind_r (py_pow lamb (2 * n)) (\<lambda>lamb_2n.
     bind_r (py_div (- 1) n) (\<lambda>expo.
     bind_r (py_pow (1 + lamb_2n) expo) (\<lambda>factor.
     Inr (phi * area * fy * factor))))))"
  using assms
  by (simp add: factored_axial_capacity_def eulerbucklingload_eq py_div_def spec_F_e_def Let_def)

lemma fac_value:
  assumes "area \<noteq> 0" "kx \<noteq> 0" "ky \<noteq> 0" "L \<noteq> 0"
    and "spec_F_e area Ix Iy kx ky L E \<noteq> 0"
    and "0 \<le> fy / spec_F_e area Ix Iy kx ky L E"
    and "n \<noteq> 0" and "fy = 0 \<longrightarrow> 0 < n"
  shows "factored_axial_capacity area Ix Iy kx ky L E fy n phi =
     Inr (spec_P_r area Ix Iy kx ky L E fy n phi)"
proof -
  let ?lam = "spec_lambda area Ix Iy kx ky L E fy"
  have lam: "0 \<le> ?lam" using assms(6) by (simp add: spec_lambda_def)
  have p1: "py_pow ?lam (2 * n) = Inr (?lam powr (2 * n))"
  proof (cases "?lam = 0")
    case True
    then have "fy = 0" using assms(5) by (simp add: spec_lambda_def)
    then have "0 < n" using assms(8) by simp
    then show ?thesis using True by (simp add: py_pow_def)
  next
    case False
    then show ?thesis using lam by (simp add: py_pow_def)
  qed
  have "0 < 1 + ?lam powr (2 * n)"
    by (simp add: add_pos_nonneg)
  then have p2: "py_pow (1 + ?lam powr (2 * n)) (- 1 / n) = Inr ((1 + ?lam powr (2 * n)) powr (- 1 / n))"
    by (rule py_pow_pos_base)
  show ?thesis
    using assms(5-7) p1 p2
    by (simp add: fac_steps [OF assms(1-4)] py_div_def py_sqrt_def spec_P_r_def spec_lambda_def)
qed

lemma bind_r_not_complex:
  assumes "m \<noteq> Inl ComplexResult"
    and "\<And>v. m = Inr v \<Longrightarrow> f v \<noteq> Inl ComplexResult"
  shows "bind_r m f \<noteq> Inl ComplexResult"
  using assms by (cases m) auto

lemma py_div_not_complex: "py_div a b \<noteq> Inl ComplexResult"
  by (simp add: py_div_def)

lemma py_sqrt_not_complex: "py_sqrt a \<noteq> Inl ComplexResult"
  by (simp add: py_sqrt_def)

lemma py_sqrt_nonneg: "py_sqrt a = Inr v \<Longrightarrow> 0 \<le> v"
  by (auto simp: py_sqrt_def split: if_splits)

lemma py_pow_not_complex: "0 \<le> x \<Longrightarrow> py_pow x y \<noteq> Inl ComplexResult"
  by (auto simp: py_pow_def)

lemma py_pow_nonneg: "0 \<le> x \<Longrightarrow> py_pow x y = Inr v \<Longrightarrow> 0 \<le> v"
  by (auto simp: py_pow_def split: if_splits)

lemma factored_axial_capacity_never_complex:
  "factored_axial_capacity area Ix Iy kx ky L E fy n phi \<noteq> Inl ComplexResult"
  unfolding factored_axial_capacity_def Let_def eulerbucklingload_eq
proof (intro bind_r_not_complex py_div_not_complex py_sqrt_not_complex)
  fix ratio lamb :: real
  assume "py_sqrt ratio = Inr lamb"
  then show "py_pow lamb (2 * n) \<noteq> Inl ComplexResult"
    by (intro py_pow_not_complex py_sqrt_nonneg)
next
  fix ratio lamb lamb_2n expo :: real
  assume "py_sqrt ratio = Inr lamb" "py_pow lamb (2 * n) = Inr lamb_2n"
  then have "0 \<le> lamb_2n"
    using py_pow_nonneg py_sqrt_nonneg by blast
  then show "py_pow (1 + lamb_2n) expo \<noteq> Inl ComplexResult"
    by (intro py_pow_not_complex) simp
next
  fix factor :: real
  show "Inr (phi * area * fy * factor) \<noteq> Inl ComplexResult" by simp
qed

section \<open>Positive inputs: value, bounds and monotonicity\<close>

lemma spec_F_e_pos:
  assumes "0 < area" "0 < Ix" "0 < Iy" "0 < kx" "0 < ky" "0 < L" "0 < E"
  shows "0 < spec_F_e area Ix Iy kx ky L E"
  using assms by (simp add: spec_F_e_def)

lemma spec_F_e_antimono:
  assumes "0 < area" "0 < Ix" "0 < Iy" "0 < kx" "0 < ky" "0 < E"
    and "0 < L1" "L1 \<le> L2"
  shows "spec_F_e area Ix Iy kx ky L2 E \<le> spec_F_e area Ix Iy kx ky L1 E"
proof -
  have sq: "L1 ^ 2 \<le> L2 ^ 2"
    using assms(7,8) by (simp add: power_mono)
  have step: "pi ^ 2 * E * I / (k * L2 ^ 2) / area \<le> pi ^ 2 * E * I / (k * L1 ^ 2) / area"
    if "0 < I" "0 < k" for I k :: real
  proof -
    have "k * L1 ^ 2 \<le> k * L2 ^ 2"
      using sq that(2) by simp
    moreover have "0 < k * L1 ^ 2"
      using that(2) assms(7) by simp
    moreover have "0 \<le> pi ^ 2 * E * I"
      using that(1) assms(6) by simp
    ultimately have "pi ^ 2 * E * I / (k * L2 ^ 2) \<le> pi ^ 2 * E * I / (k * L1 ^ 2)"
      by (intro frac_le) simp_all
    then show ?thesis
      using assms(1) by (intro divide_right_mono) simp_all
  qed
  show ?thesis
    unfolding spec_F_e_def
    using step [OF assms(2) assms(4)] step [OF assms(3) assms(5)]
    by (rule min.mono)
qed

lemma fac_positive_inputs:
  assumes "0 < area" "0 < Ix" "0 < Iy" "0 < kx" "0 < ky" "0 < L" "0 < E" "0 < fy" "0 < n"
  shows "factored_axial_capacity area Ix Iy kx ky L E fy n phi =
           Inr (spec_P_r area Ix Iy kx ky L E fy n phi)"
proof -
  have F: "0 < spec_F_e area Ix Iy kx ky L E"
    using assms(1-7) by (rule spec_F_e_pos)
  show ?thesis
    using assms F by (intro fac_value) simp_all
qed

lemma spec_lambda_pos:
  assumes "0 < area" "0 < Ix" "0 < Iy" "0 < kx" "0 < ky" "0 < L" "0 < E" "0 < fy"
  shows "0 < spec_lambda area Ix Iy kx ky L E fy"
  using spec_F_e_pos [OF assms(1-7)] assms(8) by (simp add: spec_lambda_def)

lemma reduction_factor_bounds:
  fixes lam n :: real
  assumes "0 < lam" "0 < n"
  shows "0 < (1 + lam powr (2 * n)) powr (- 1 / n)"
    and "(1 + lam powr (2 * n)) powr (- 1 / n) < 1"
proof -
  have "0 < lam powr (2 * n)"
    using assms(1) by simp
  then have base: "1 < 1 + lam powr (2 * n)"
    by simp
  then have "1 + lam powr (2 * n) \<noteq> 0"
    by linarith
  then show "0 < (1 + lam powr (2 * n)) powr (- 1 / n)"
    using powr_gt_zero [of "1 + lam powr (2 * n)" "- 1 / n"] by blast
  have "- 1 / n < 0"
    using assms(2) by simp
  with base show "(1 + lam powr (2 * n)) powr (- 1 / n) < 1"
    by (rule powr_less_one)
qed

lemma spec_P_r_bounds:
  assumes "0 < area" "0 < Ix" "0 < Iy" "0 < kx" "0 < ky" "0 < L" "0 < E" "0 < fy" "0 < n"
    and "0 < phi"
  shows "0 < spec_P_r area Ix Iy kx ky L E fy n phi"
    and "spec_P_r area Ix Iy kx ky L E fy n phi < phi * area * fy"
proof -
  let ?lam = "spec_lambda area Ix Iy kx ky L E fy"
  have lam: "0 < ?lam"
    using assms(1-8) by (rule spec_lambda_pos)
  have c: "0 < phi * area * fy"
    using assms by simp
  show "0 < spec_P_r area Ix Iy kx ky L E fy n phi"
    unfolding spec_P_r_def
    using c reduction_factor_bounds(1) [OF lam assms(9)] by (rule mult_pos_pos)
  show "spec_P_r area Ix Iy kx ky L E fy n phi < phi * area * fy"
    unfolding spec_P_r_def
    using mult_strict_left_mono [OF reduction_factor_bounds(2) [OF lam assms(9)] c] by simp
qed

lemma spec_P_r_antimono:
  assumes "0 < area" "0 < Ix" "0 < Iy" "0 < kx" "0 < ky" "0 < E" "0 < fy" "0 < n" "0 < phi"
    and "0 < L1" "L1 \<le> L2"
  shows "spec_P_r area Ix Iy kx ky L2 E fy n phi \<le> spec_P_r area Ix Iy kx ky L1 E fy n phi"
proof -
  let ?F1 = "spec_F_e area Ix Iy kx ky L1 E" and ?F2 = "spec_F_e area Ix Iy kx ky L2 E"
  let ?l1 = "spec_lambda area Ix Iy kx ky L1 E fy" and ?l2 = "spec_lambda area Ix Iy kx ky L2 E fy"
  have L2: "0 < L2" using assms(10,11) by simp
  have F2: "0 < ?F2"
    using assms(1-5) L2 assms(6) by (rule spec_F_e_pos)
  have F: "?F2 \<le> ?F1"
    using assms(1-6) assms(10,11) by (rule spec_F_e_antimono)
  have "fy / ?F1 \<le> fy / ?F2"
    using F F2 assms(7) by (simp add: frac_le)
  then have l: "?l1 \<le> ?l2"
    by (simp add: spec_lambda_def)
  have l1: "0 \<le> ?l1"
    using spec_lambda_pos [OF assms(1-5) assms(10) assms(6,7)] by simp
  have "?l1 powr (2 * n) \<le> ?l2 powr (2 * n)"
    using assms(8) l1 l by (intro powr_mono2) simp_all
  then have "1 + ?l1 powr (2 * n) \<le> 1 + ?l2 powr (2 * n)"
    by simp
  moreover have "0 < 1 + ?l1 powr (2 * n)"
    by (simp add: add_pos_nonneg)
  moreover have "- 1 / n \<le> 0"
    using assms(8) by simp
  ultimately have "(1 + ?l2 powr (2 * n)) powr (- 1 / n) \<le> (1 + ?l1 powr (2 * n)) powr (- 1 / n)"
    by (intro powr_mono2')
  moreover have "0 \<le> phi * area * fy"
    using assms by simp
  ultimately show ?thesis
    unfolding spec_P_r_def by (rule mult_left_mono)
qed

section \<open>Claims about the resistance calculator\<close>









text \<open>
  C2. For every Load, \<open>factored_axial_load\<close> returns the maximum of the four values
  \<open>1.4 D\<close>, \<open>1.25 D + 1.5 L\<close>, \<open>1.25 D + 1.5 L + 1.0 S\<close> and
  \<open>1.25 D + 1.5 S + 1.0 L\<close>; replacing the \<open>W\<close> and \<open>E\<close> components of the load by
  any other values leaves the result as it is.
\<close>

theorem C2_max_of_four:
  "SteelColumn_factored_axial_load
     (self\<lparr>sc_axial_loads := \<lparr>load_D = D, load_L = L, load_S = S, load_W = W, load_E = E\<rparr>\<rparr>) =
   Max {1.4 * D, 1.25 * D + 1.5 * L, 1.25 * D + 1.5 * L + 1.0 * S, 1.25 * D + 1.5 * S + 1.0 * L}
   \<and> SteelColumn_factored_axial_load
       (self\<lparr>sc_axial_loads := (sc_axial_loads self)\<lparr>load_W := W', load_E := E'\<rparr>\<rparr>) =
     SteelColumn_factored_axial_load self"
  by (simp add: SteelColumn_factored_axial_load_def max_factored_load_def py_max_def max_def)

text \<open>
  C5. With \<open>area\<close>, \<open>Ix\<close>, \<open>Iy\<close>, \<open>kx\<close>, \<open>ky\<close>, \<open>E\<close>, \<open>fy\<close>, \<open>n\<close> and \<open>phi\<close>
  fixed at positive values, \<open>factored_axial_capacity\<close> returns at every height and is
  non-increasing in the height: for \<open>0 < L1 \<le> L2\<close> its value at \<open>L1\<close> is at least its
  value at \<open>L2\<close>.
\<close>

theorem C5_monotone_in_height:
  assumes "0 < area" "0 < Ix" "0 < Iy" "0 < kx" "0 < ky" "0 < E" "0 < fy" "0 < n" "0 < phi"
    and "0 < L1" "L1 \<le> L2"
  shows "\<exists>P1 P2. factored_axial_capacity area Ix Iy kx ky L1 E fy n phi = Inr P1
               \<and> factored_axial_capacity area Ix Iy kx ky L2 E fy n phi = Inr P2
               \<and> P2 \<le> P1"
proof -
  have L2: "0 < L2" using assms(10,11) by simp
  have "factored_axial_capacity area Ix Iy kx ky L1 E fy n phi =
          Inr (spec_P_r area Ix Iy kx ky L1 E fy n phi)"
    using assms(1-5) assms(10) assms(6-8) by (rule fac_positive_inputs)
  moreover have "factored_axial_capacity area Ix Iy kx ky L2 E fy n phi =
          Inr (spec_P_r area Ix Iy kx ky L2 E fy n phi)"
    using assms(1-5) L2 assms(6-8) by (rule fac_positive_inputs)
  moreover have "spec_P_r area Ix Iy kx ky L2 E fy n phi \<le> spec_P_r area Ix Iy kx ky L1 E fy n phi"
    using assms by (rule spec_P_r_antimono)
  ultimately show ?thesis by blast
qed

theorem C5_monotone_in_height_witness:
  "\<exists>P1 P2. factored_axial_capacity 16500 308000000 100000000 1 1 3250 200000 345 1.34 0.9 = Inr P1
          \<and> factored_axial_capacity 16500 308000000 100000000 1 1 4000 200000 345 1.34 0.9 = Inr P2
          \<and> P2 \<le> P1"
  by (rule C5_monotone_in_height) simp_all

section \<open>Claims about the column model\<close>

lemma lower_x: "lower s = ''x'' \<longleftrightarrow> s = ''x'' \<or> s = ''X''"
  by (cases s) (auto simp: lower_def char_lower_def)

lemma lower_y: "lower s = ''y'' \<longleftrightarrow> s = ''y'' \<or> s = ''Y''"
  by (cases s) (auto simp: lower_def char_lower_def)

lemma eulerbucklingload_pos:
  "k \<noteq> 0 \<Longrightarrow> L \<noteq> 0 \<Longrightarrow> eulerbucklingload E I k L = Inr (pi ^ 2 * E * I / (k * L ^ 2))"
  by (simp add: eulerbucklingload_eq py_div_def)

lemma eulerbucklingload_zero:
  "k = 0 \<or> L = 0 \<Longrightarrow> eulerbucklingload E I k L = Inl ZeroDivisionError"
  by (auto simp: eulerbucklingload_eq py_div_def)

lemma radius_of_gyration_pos:
  "0 < A \<Longrightarrow> 0 \<le> I \<Longrightarrow> radius_of_gyration I A = Inr (sqrt (I / A))"
  by (simp add: radius_of_gyration_def py_div_def py_sqrt_def not_less)

text \<open>
  C8. For every Column with positive \<open>area\<close>, \<open>Ix\<close>, \<open>Iy\<close>, \<open>kx\<close>, \<open>ky\<close>,
  \<open>height\<close> and \<open>E\<close>: \<open>radius_of_gyration\<close> about x is \<open>sqrt (Ix / area)\<close> and about
  y is \<open>sqrt (Iy / area)\<close>; \<open>euler_buckling_load\<close> about x is
  \<open>pi^2 * E * Ix / (kx * height^2)\<close> and about y is \<open>pi^2 * E * Iy / (ky * height^2)\<close>;
  the axis label is matched without regard to case (\<open>x\<close> or \<open>X\<close>, \<open>y\<close> or \<open>Y\<close>).
\<close>

theorem C8_column_methods:
  assumes "0 < col_area c" "0 < col_Ix c" "0 < col_Iy c" "0 < col_kx c" "0 < col_ky c"
    and "0 < col_height c" "0 < col_E c"
  shows "(axis = ''x'' \<or> axis = ''X'' \<longrightarrow>
            Column_radius_of_gyration c axis = Inr (sqrt (col_Ix c / col_area c))
          \<and> Column_euler_buckling_load c axis =
              Inr (pi ^ 2 * col_E c * col_Ix c / (col_kx c * col_height c ^ 2)))
       \<and> (axis = ''y'' \<or> axis = ''Y'' \<longrightarrow>
            Column_radius_of_gyration c axis = Inr (sqrt (col_Iy c / col_area c))
          \<and> Column_euler_buckling_load c axis =
              Inr (pi ^ 2 * col_E c * col_Iy c / (col_ky c * col_height c ^ 2)))"
proof -
  have x: "lower axis = ''x''" if "axis = ''x'' \<or> axis = ''X''"
    using that by (simp add: lower_x)
  have y: "lower axis = ''y'' \<and> lower axis \<noteq> ''x''" if "axis = ''y'' \<or> axis = ''Y''"
    using that by (auto simp: lower_y lower_x)
  show ?thesis
    using assms x y
    by (auto simp: Column_radius_of_gyration_def radius_of_gyration_local_def
        Column_euler_buckling_load_def euler_buckling_load_local_def return_local_def
        radius_of_gyration_pos eulerbucklingload_pos)
qed

theorem C8_column_methods_witness:
  "Column_radius_of_gyration C01 ''X'' = Inr (sqrt (1600000000 / 120000))
   \<and> Column_euler_buckling_load C01 ''X'' = Inr (pi ^ 2 * 19.2 * 1600000000 / (1 * 4800 ^ 2))
   \<and> Column_radius_of_gyration C01 ''y'' = Inr (sqrt (900000000 / 120000))
   \<and> Column_euler_buckling_load C01 ''y'' = Inr (pi ^ 2 * 19.2 * 900000000 / (1 * 4800 ^ 2))"
  using C8_column_methods [of C01 "''X''"] C8_column_methods [of C01 "''y''"]
  by (simp add: C01_def)

text \<open>
  C9 (amended). For an axis argument other than \<open>x\<close> or \<open>y\<close> (in either case),
  \<open>Column.radius_of_gyration\<close> and \<open>Column.euler_buckling_load\<close> do not return: neither
  branch of the \<open>if\<close>/\<open>elif\<close> binds the result local, the methods have no check of the
  argument, and the \<open>return\<close> of the unbound local raises UnboundLocalError.
\<close>

theorem C9_other_axis:
  assumes "axis \<notin> {''x'', ''X'', ''y'', ''Y''}"
  shows "Column_radius_of_gyration c axis = Inl UnboundLocalError
       \<and> Column_euler_buckling_load c axis = Inl UnboundLocalError"
  using assms
  by (simp add: Column_radius_of_gyration_def radius_of_gyration_local_def
        Column_euler_buckling_load_def euler_buckling_load_local_def return_local_def
        lower_x lower_y)

theorem C9_other_axis_witness:
  "Column_radius_of_gyration C00 ''major'' = Inl UnboundLocalError
   \<and> Column_euler_buckling_load C00 ''major'' = Inl UnboundLocalError"
  by (rule C9_other_axis) simp

text \<open>
  The claim as written says that no error is raised; the call raises UnboundLocalError,
  here for the axis \<open>z\<close> and for the empty string.
\<close>

theorem C9_counterexample:
  "Column_radius_of_gyration C01 ''z'' = Inl UnboundLocalError
   \<and> Column_euler_buckling_load C01 ''z'' = Inl UnboundLocalError
   \<and> Column_radius_of_gyration C01 '''' = Inl UnboundLocalError"
  by (simp add: Column_radius_of_gyration_def radius_of_gyration_local_def
        Column_euler_buckling_load_def euler_buckling_load_local_def return_local_def
        lower_def char_lower_def)

section \<open>Claims about failures\<close>

lemma fac_area_zero:
  "factored_axial_capacity 0 Ix Iy kx ky L E fy n phi = Inl ZeroDivisionError"
  by (simp add: factored_axial_capacity_def eulerbucklingload_eq py_div_def)

lemma fac_height_zero:
  "factored_axial_capacity area Ix Iy kx ky 0 E fy n phi = Inl ZeroDivisionError"
  by (simp add: factored_axial_capacity_def eulerbucklingload_eq py_div_def)

lemma fac_F_e_zero:
  assumes "area \<noteq> 0" "kx \<noteq> 0" "ky \<noteq> 0" "L \<noteq> 0" "spec_F_e area Ix Iy kx ky L E = 0"
  shows "factored_axial_capacity area Ix Iy kx ky L E fy n phi = Inl ZeroDivisionError"
  using assms(5) by (simp add: fac_steps [OF assms(1-4)] py_div_def)

lemma range_up_first:
  "0 < step \<Longrightarrow> start < stop \<Longrightarrow> range_up start stop step = start # range_up (start + step) stop step"
  by simp

lemma sweep_height_zero:
  assumes "0 < max_height" "0 < interval"
  shows "column_pr_over_height_range 0 max_height interval tag area i_x i_y E fy =
           Inl ZeroDivisionError"
  using assms
  by (simp add: column_pr_over_height_range_def py_range_def range_up_first [of interval 0 max_height]
      SteelColumn_factored_axial_capacity_def fac_height_zero del: range_up.simps)

text \<open>
  C6. \<open>factored_axial_capacity\<close> fails with ZeroDivisionError when \<open>area = 0\<close> (in the
  first step: the Euler load about x followed by the division by the area) and when the
  governing elastic buckling stress \<open>F_e\<close> is 0 (at \<open>fy / F_e\<close>);
  \<open>Column.euler_buckling_load\<close> about an axis fails with ZeroDivisionError when the
  \<open>k\<close> of that axis or the height is 0. The error reaches the callers as it is:
  an error of the free function is the error of \<open>SteelColumn.factored_axial_capacity\<close>
  and of \<open>factored_dcr\<close>, and a sweep that starts at height 0 ends both
  \<open>column_pr_over_height_range\<close> and \<open>compare_two_columns\<close> with ZeroDivisionError.
\<close>

theorem C6_division_by_zero:
  "(area = 0 \<longrightarrow>
      bind_r (eulerbucklingload E Ix kx L) (\<lambda>P_E_x. py_div P_E_x area) = Inl ZeroDivisionError
    \<and> factored_axial_capacity area Ix Iy kx ky L E fy n phi = Inl ZeroDivisionError)
 \<and> (area \<noteq> 0 \<and> kx \<noteq> 0 \<and> ky \<noteq> 0 \<and> L \<noteq> 0 \<and> spec_F_e area Ix Iy kx ky L E = 0 \<longrightarrow>
      py_div fy (spec_F_e area Ix Iy kx ky L E) = Inl ZeroDivisionError
    \<and> factored_axial_capacity area Ix Iy kx ky L E fy n phi = Inl ZeroDivisionError)
 \<and> ((axis = ''x'' \<or> axis = ''X'') \<and> (col_kx c = 0 \<or> col_height c = 0) \<longrightarrow>
      Column_euler_buckling_load c axis = Inl ZeroDivisionError)
 \<and> ((axis = ''y'' \<or> axis = ''Y'') \<and> (col_ky c = 0 \<or> col_height c = 0) \<longrightarrow>
      Column_euler_buckling_load c axis = Inl ZeroDivisionError)
 \<and> (factored_axial_capacity (col_area self) (col_Ix self) (col_Iy self) (col_kx self)
        (col_ky self) (col_height self) (col_E self) (sc_fy self) n 0.9 = Inl e \<longrightarrow>
      SteelColumn_factored_axial_capacity self n = Inl e
    \<and> SteelColumn_factored_dcr self n = Inl e)
 \<and> (0 < max_height \<and> 0 < interval \<longrightarrow>
      column_pr_over_height_range 0 max_height interval tag area_a Ix_a Iy_a E_a fy_a =
        Inl ZeroDivisionError
    \<and> compare_two_columns 0 max_height interval area_a Ix_a Iy_a E_a fy_a area_b Ix_b Iy_b E_b fy_b =
        Inl ZeroDivisionError)"
proof (intro conjI impI)
  assume "area = 0"
  then show "bind_r (eulerbucklingload E Ix kx L) (\<lambda>P_E_x. py_div P_E_x area) = Inl ZeroDivisionError"
    by (simp add: eulerbucklingload_eq py_div_def)
  from \<open>area = 0\<close> show "factored_axial_capacity area Ix Iy kx ky L E fy n phi = Inl ZeroDivisionError"
    by (simp add: fac_area_zero)
next
  assume a: "area \<noteq> 0 \<and> kx \<noteq> 0 \<and> ky \<noteq> 0 \<and> L \<noteq> 0 \<and> spec_F_e area Ix Iy kx ky L E = 0"
  then show "py_div fy (spec_F_e area Ix Iy kx ky L E) = Inl ZeroDivisionError"
    by (simp add: py_div_def)
  from a show "factored_axial_capacity area Ix Iy kx ky L E fy n phi = Inl ZeroDivisionError"
    by (simp add: fac_F_e_zero)
next
  assume "(axis = ''x'' \<or> axis = ''X'') \<and> (col_kx c = 0 \<or> col_height c = 0)"
  then show "Column_euler_buckling_load c axis = Inl ZeroDivisionError"
    by (auto simp: Column_euler_buckling_load_def euler_buckling_load_local_def lower_x
        eulerbucklingload_zero)
next
  assume "(axis = ''y'' \<or> axis = ''Y'') \<and> (col_ky c = 0 \<or> col_height c = 0)"
  then show "Column_euler_buckling_load c axis = Inl ZeroDivisionError"
    by (auto simp: Column_euler_buckling_load_def euler_buckling_load_local_def lower_x lower_y
        eulerbucklingload_zero)
next
  assume "factored_axial_capacity (col_area self) (col_Ix self) (col_Iy self) (col_kx self)
        (col_ky self) (col_height self) (col_E self) (sc_fy self) n 0.9 = Inl e"
  then show "SteelColumn_factored_axial_capacity self n = Inl e"
    and "SteelColumn_factored_dcr self n = Inl e"
    by (simp_all add: SteelColumn_factored_axial_capacity_def SteelColumn_factored_dcr_def)
next
  assume "0 < max_height \<and> 0 < interval"
  then show "column_pr_over_height_range 0 max_height interval tag area_a Ix_a Iy_a E_a fy_a =
        Inl ZeroDivisionError"
    and "compare_two_columns 0 max_height interval area_a Ix_a Iy_a E_a fy_a area_b Ix_b Iy_b E_b fy_b =
        Inl ZeroDivisionError"
    by (simp_all add: compare_two_columns_def sweep_height_zero)
qed

theorem C6_division_by_zero_witness:
  "factored_axial_capacity 0 1 1 1 1 1 1 1 1.34 0.9 = Inl ZeroDivisionError
   \<and> factored_axial_capacity 1 0 0 1 1 1 1 1 1.34 0.9 = Inl ZeroDivisionError
   \<and> Column_euler_buckling_load C00 ''x'' = Inl ZeroDivisionError
   \<and> Column_euler_buckling_load C00 ''Y'' = Inl ZeroDivisionError
   \<and> SteelColumn_factored_axial_capacity SC00 1.34 = Inl ZeroDivisionError
   \<and> SteelColumn_factored_dcr SC00 1.34 = Inl ZeroDivisionError
   \<and> column_pr_over_height_range 0 30000 200 ''Column A'' 1000 200000000 100000000 200000 350 =
       Inl ZeroDivisionError
   \<and> compare_two_columns 0 30000 200 1000 200000000 100000000 200000 350
         500 100000000 50000000 200000 350 = Inl ZeroDivisionError"
proof -
  have h: "factored_axial_capacity (col_area SC00) (col_Ix SC00) (col_Iy SC00) (col_kx SC00)
        (col_ky SC00) (col_height SC00) (col_E SC00) (sc_fy SC00) 1.34 0.9 = Inl ZeroDivisionError"
    by (simp add: SC00_def fac_area_zero)
  have F: "spec_F_e 1 0 0 1 1 1 1 = 0"
    by (simp add: spec_F_e_def)
  show ?thesis
    using C6_division_by_zero [of 0 1 1 1 1 1 1 1 "1.34" "0.9" "''x''" C00 SC00 ZeroDivisionError
        30000 200 "''Column A''" 1000 200000000 100000000 200000 350 500 100000000 50000000 200000 350]
      C6_division_by_zero [of 1 1 0 1 1 0 1 1 "1.34" "0.9" "''Y''" C00 SC00 ZeroDivisionError
        30000 200 "''Column A''" 1000 200000000 100000000 200000 350 500 100000000 50000000 200000 350]
      h F
    by (simp add: C00_def)
qed

lemma SC01_capacity:
  "SteelColumn_factored_axial_capacity SC01 1.34 =
     Inr (spec_P_r 16500 308000000 100000000 1 1 3250 200000 345 1.34 0.9)"
  unfolding SteelColumn_factored_axial_capacity_def SC01_def
  by (simp add: fac_positive_inputs)

lemma SC01_capacity_nonzero:
  "spec_P_r 16500 308000000 100000000 1 1 3250 200000 345 1.34 0.9 \<noteq> 0"
  using spec_P_r_bounds(1) [of 16500 308000000 100000000 1 1 3250 200000 345 "1.34" "0.9"]
  by simp

lemma zero_yield_capacity:
  "SteelColumn_factored_axial_capacity (SC01\<lparr>sc_fy := 0\<rparr>) 1.34 = Inr 0"
  unfolding SteelColumn_factored_axial_capacity_def SC01_def
  by (simp add: fac_value spec_F_e_def spec_P_r_def)

text \<open>
  C7. For every SteelColumn and every \<open>n\<close> at which \<open>factored_axial_capacity(n)\<close>
  returns a non-zero capacity, \<open>factored_dcr(n)\<close> returns \<open>factored_axial_load()\<close>
  divided by that capacity; when the capacity is zero the call fails with
  ZeroDivisionError.
\<close>

theorem C7_demand_capacity_ratio:
  "(SteelColumn_factored_axial_capacity self n = Inr capacity \<and> capacity \<noteq> 0 \<longrightarrow>
      SteelColumn_factored_dcr self n = Inr (SteelColumn_factored_axial_load self / capacity))
 \<and> (SteelColumn_factored_axial_capacity self n = Inr 0 \<longrightarrow>
      SteelColumn_factored_dcr self n = Inl ZeroDivisionError)"
  by (simp add: SteelColumn_factored_dcr_def py_div_def)

theorem C7_demand_capacity_ratio_witness:
  "SteelColumn_factored_dcr SC01 1.34 =
     Inr (SteelColumn_factored_axial_load SC01 /
          spec_P_r 16500 308000000 100000000 1 1 3250 200000 345 1.34 0.9)
   \<and> SteelColumn_factored_dcr (SC01\<lparr>sc_fy := 0\<rparr>) 1.34 = Inl ZeroDivisionError"
  using C7_demand_capacity_ratio [of SC01 "1.34" "spec_P_r 16500 308000000 100000000 1 1 3250 200000 345 1.34 0.9"]
    C7_demand_capacity_ratio [of "SC01\<lparr>sc_fy := 0\<rparr>" "1.34"]
    SC01_capacity SC01_capacity_nonzero zero_yield_capacity
  by simp

section \<open>Claims about the height sweep and the comparison\<close>

lemma ceiling_step:
  assumes "0 < step"
  shows "\<lceil>real_of_int (stop - (start + step)) / real_of_int step\<rceil> =
         \<lceil>real_of_int (stop - start) / real_of_int step\<rceil> - 1"
proof -
  have "real_of_int (stop - (start + step)) / real_of_int step =
        real_of_int (stop - start) / real_of_int step - 1"
    using assms by (simp add: field_simps)
  then show ?thesis by simp
qed

lemma ceiling_pos_quotient:
  assumes "0 < step" "start < stop"
  shows "0 < \<lceil>real_of_int (stop - start) / real_of_int step\<rceil>"
  using assms by (simp add: ceiling_less_iff [symmetric] less_ceiling_iff)

lemma ceiling_nonpos_quotient:
  assumes "0 < step" "\<not> start < stop"
  shows "\<lceil>real_of_int (stop - start) / real_of_int step\<rceil> \<le> 0"
  using assms by (simp add: ceiling_le_iff divide_le_0_iff)

lemma range_up_eq:
  "0 < step \<Longrightarrow>
   range_up start stop step =
     map (\<lambda>i. start + int i * step) [0..<nat \<lceil>real_of_int (stop - start) / real_of_int step\<rceil>]"
proof (induction start stop step rule: range_up.induct)
  case (1 start stop step)
  show ?case
  proof (cases "start < stop")
    case True
    let ?c = "\<lceil>real_of_int (stop - start) / real_of_int step\<rceil>"
    have pos: "0 < ?c"
      using "1.prems" True by (rule ceiling_pos_quotient)
    then have n: "nat ?c = Suc (nat (?c - 1))"
      by arith
    have ih: "range_up (start + step) stop step =
        map (\<lambda>i. start + step + int i * step)
          [0..<nat \<lceil>real_of_int (stop - (start + step)) / real_of_int step\<rceil>]"
      using "1.IH" "1.prems" True by blast
    have "range_up start stop step = start # range_up (start + step) stop step"
      using "1.prems" True by (rule range_up_first)
    also have "range_up (start + step) stop step =
        map (\<lambda>i. start + step + int i * step) [0..<nat (?c - 1)]"
      by (simp only: ih ceiling_step [OF "1.prems"])
    also have "start # map (\<lambda>i. start + step + int i * step) [0..<nat (?c - 1)] =
        map (\<lambda>i. start + int i * step) [0..<Suc (nat (?c - 1))]"
      by (simp add: map_upt_Suc algebra_simps del: upt_Suc)
    finally show ?thesis
      by (simp only: n)
  next
    case False
    then have "nat \<lceil>real_of_int (stop - start) / real_of_int step\<rceil> = 0"
      using ceiling_nonpos_quotient [OF "1.prems" False] by simp
    then show ?thesis
      using False by simp
  qed
qed

lemma sweep_loop_result:
  "sweep_loop tc ys xs = Inr (tc', ys') \<Longrightarrow>
   \<exists>ps. ys' = ys @ ps \<and> length ps = length xs \<and>
        (\<forall>i<length xs. SteelColumn_factored_axial_capacity
                          (tc\<lparr>col_height := real_of_int (xs ! i)\<rparr>) 1.34 = Inr (ps ! i))"
proof (induction xs arbitrary: tc ys)
  case Nil
  then show ?case by simp
next
  case (Cons x xs)
  let ?tc = "tc\<lparr>col_height := real_of_int x\<rparr>"
  from Cons.prems obtain pr where
    pr: "SteelColumn_factored_axial_capacity ?tc 1.34 = Inr pr"
    and rest: "sweep_loop ?tc (ys @ [pr]) xs = Inr (tc', ys')"
    by (cases "SteelColumn_factored_axial_capacity ?tc 1.34") (auto simp: Let_def)
  from Cons.IH [OF rest] obtain ps where
    ps: "ys' = (ys @ [pr]) @ ps" "length ps = length xs"
      "\<forall>i<length xs. SteelColumn_factored_axial_capacity
                          (?tc\<lparr>col_height := real_of_int (xs ! i)\<rparr>) 1.34 = Inr (ps ! i)"
    by blast
  have "\<forall>i<length (x # xs). SteelColumn_factored_axial_capacity
            (tc\<lparr>col_height := real_of_int ((x # xs) ! i)\<rparr>) 1.34 = Inr ((pr # ps) ! i)"
  proof (intro allI impI)
    fix i assume "i < length (x # xs)"
    then show "SteelColumn_factored_axial_capacity
            (tc\<lparr>col_height := real_of_int ((x # xs) ! i)\<rparr>) 1.34 = Inr ((pr # ps) ! i)"
      using pr ps(3) by (cases i) auto
  qed
  moreover have "ys' = ys @ (pr # ps)" "length (pr # ps) = length (x # xs)"
    using ps(1,2) by simp_all
  ultimately show ?case by blast
qed


lemma less_ceiling_quotient:
  assumes "0 < step"
  shows "int k < \<lceil>real_of_int (stop - start) / real_of_int step\<rceil> \<longleftrightarrow>
         start + int k * step < stop"
proof -
  have "int k < \<lceil>real_of_int (stop - start) / real_of_int step\<rceil> \<longleftrightarrow>
        real_of_int (int k) < real_of_int (stop - start) / real_of_int step"
    by (rule less_ceiling_iff)
  also have "\<dots> \<longleftrightarrow> real_of_int (int k) * real_of_int step < real_of_int (stop - start)"
    using assms by (simp add: pos_less_divide_eq)
  also have "\<dots> \<longleftrightarrow> real_of_int (int k * step) < real_of_int (stop - start)"
    by simp
  also have "\<dots> \<longleftrightarrow> int k * step < stop - start"
    by (rule of_int_less_iff)
  also have "\<dots> \<longleftrightarrow> start + int k * step < stop"
    by linarith
  finally show ?thesis .
qed

lemma sweep_capacity:
  "SteelColumn_factored_axial_capacity
     (\<lparr>col_height = h0, col_area = area, col_Ix = i_x, col_Iy = i_y, col_kx = 1, col_ky = 1,
       col_E = E, sc_column_tag = tag, sc_fy = fy, sc_axial_loads = ld, sc_phi = p\<rparr>
      \<lparr>col_height := h\<rparr>) n =
   factored_axial_capacity area i_x i_y 1 1 h E fy n 0.9"
  by (simp add: SteelColumn_factored_axial_capacity_def)

lemma column_pr_over_height_range_result:
  assumes "0 < interval"
    and "column_pr_over_height_range min_height max_height interval column_tag area i_x i_y E fy =
           Inr (heights, resistances)"
  shows "heights = map (\<lambda>i. min_height + int i * interval)
                     [0..<nat \<lceil>real_of_int (max_height - min_height) / real_of_int interval\<rceil>]"
    and "length resistances = length heights"
    and "\<forall>i<length heights.
           factored_axial_capacity area i_x i_y 1 1 (real_of_int (heights ! i)) E fy 1.34 0.9 =
             Inr (resistances ! i)"
proof -
  let ?tc = "\<lparr>col_height = real_of_int min_height, col_area = area, col_Ix = i_x, col_Iy = i_y,
        col_kx = 1, col_ky = 1, col_E = E, sc_column_tag = column_tag, sc_fy = fy,
        sc_axial_loads = \<lparr>load_D = 0, load_L = 0, load_S = 0, load_W = 0, load_E = 0\<rparr>,
        sc_phi = 0.9\<rparr>"
  have r: "py_range min_height max_height interval = Inr (range_up min_height max_height interval)"
    using assms(1) by (simp add: py_range_def)
  from assms(2) obtain tc' where
    h: "heights = range_up min_height max_height interval"
    and l: "sweep_loop ?tc [] heights = Inr (tc', resistances)"
    unfolding column_pr_over_height_range_def r
    by (cases "sweep_loop ?tc [] (range_up min_height max_height interval)")
       (auto simp: Let_def simp del: range_up.simps)
  show "heights = map (\<lambda>i. min_height + int i * interval)
                     [0..<nat \<lceil>real_of_int (max_height - min_height) / real_of_int interval\<rceil>]"
    unfolding h using assms(1) by (rule range_up_eq)
  from sweep_loop_result [OF l] obtain ps where
    ps: "resistances = [] @ ps" "length ps = length heights"
      "\<forall>i<length heights. SteelColumn_factored_axial_capacity
                          (?tc\<lparr>col_height := real_of_int (heights ! i)\<rparr>) 1.34 = Inr (ps ! i)"
    by blast
  show "length resistances = length heights"
    using ps(1,2) by simp
  show "\<forall>i<length heights.
           factored_axial_capacity area i_x i_y 1 1 (real_of_int (heights ! i)) E fy 1.34 0.9 =
             Inr (resistances ! i)"
    using ps(1,3) by (simp only: sweep_capacity append_Nil)
qed

lemma sweep_example:
  "column_pr_over_height_range 200 800 200 ''Column A'' 1000 200000000 100000000 200000 350 =
     Inr ([200, 400, 600],
          [spec_P_r 1000 200000000 100000000 1 1 200 200000 350 1.34 0.9,
           spec_P_r 1000 200000000 100000000 1 1 400 200000 350 1.34 0.9,
           spec_P_r 1000 200000000 100000000 1 1 600 200000 350 1.34 0.9])"
  by (simp add: column_pr_over_height_range_def py_range_def SteelColumn_factored_axial_capacity_def fac_positive_inputs)

lemma sweep_example_b:
  "column_pr_over_height_range 200 800 200 ''Column B'' 500 100000000 50000000 200000 350 =
     Inr ([200, 400, 600],
          [spec_P_r 500 100000000 50000000 1 1 200 200000 350 1.34 0.9,
           spec_P_r 500 100000000 50000000 1 1 400 200000 350 1.34 0.9,
           spec_P_r 500 100000000 50000000 1 1 600 200000 350 1.34 0.9])"
  by (simp add: column_pr_over_height_range_def py_range_def SteelColumn_factored_axial_capacity_def fac_positive_inputs)

lemma compare_example:
  "compare_two_columns 200 800 200 1000 200000000 100000000 200000 350
       500 100000000 50000000 200000 350 =
     Inr (Map.empty
       (''a'' \<mapsto> ([200, 400, 600],
          [spec_P_r 1000 200000000 100000000 1 1 200 200000 350 1.34 0.9,
           spec_P_r 1000 200000000 100000000 1 1 400 200000 350 1.34 0.9,
           spec_P_r 1000 200000000 100000000 1 1 600 200000 350 1.34 0.9]),
        ''b'' \<mapsto> ([200, 400, 600],
          [spec_P_r 500 100000000 50000000 1 1 200 200000 350 1.34 0.9,
           spec_P_r 500 100000000 50000000 1 1 400 200000 350 1.34 0.9,
           spec_P_r 500 100000000 50000000 1 1 600 200000 350 1.34 0.9])))"
  unfolding compare_two_columns_def sweep_example sweep_example_b by simp

text \<open>
  C3 (amended). For every call of \<open>column_pr_over_height_range\<close> with
  \<open>interval > 0\<close> that returns, the heights are the arithmetic progression
  \<open>min_height, min_height + interval, ...\<close> with every term strictly below
  \<open>max_height\<close> and no other, so \<open>max_height\<close> is not among them; their number is
  \<open>max (0, ceil ((max_height - min_height) / interval))\<close>, which is the ceiling itself
  when \<open>min_height \<le> max_height\<close>; and the resistances are, position by position,
  \<open>factored_axial_capacity\<close> at these heights with \<open>kx = ky = 1\<close>, \<open>n = 1.34\<close> and
  \<open>phi = 0.9\<close>.
\<close>

theorem C3_height_sweep:
  assumes "0 < interval"
    and "column_pr_over_height_range min_height max_height interval column_tag area i_x i_y E fy =
           Inr (heights, resistances)"
  shows "length heights = nat \<lceil>real_of_int (max_height - min_height) / real_of_int interval\<rceil>
       \<and> (\<forall>i<length heights. heights ! i = min_height + int i * interval)
       \<and> (\<forall>h\<in>set heights. h < max_height)
       \<and> (\<forall>k::nat. min_height + int k * interval < max_height \<longrightarrow>
             min_height + int k * interval \<in> set heights)
       \<and> length resistances = length heights
       \<and> (\<forall>i<length heights.
             factored_axial_capacity area i_x i_y 1 1 (real_of_int (heights ! i)) E fy 1.34 0.9 =
               Inr (resistances ! i))"
proof -
  let ?n = "nat \<lceil>real_of_int (max_height - min_height) / real_of_int interval\<rceil>"
  note res = column_pr_over_height_range_result [OF assms]
  have len: "length heights = ?n"
    by (subst res(1)) simp
  have nth: "heights ! i = min_height + int i * interval" if "i < length heights" for i
    using that len by (subst res(1)) simp
  have below: "k < ?n \<longleftrightarrow> min_height + int k * interval < max_height" for k :: nat
    using less_ceiling_quotient [OF assms(1), of k max_height min_height] by linarith
  have a: "\<forall>h\<in>set heights. h < max_height"
  proof
    fix h assume "h \<in> set heights"
    then obtain i where "i < length heights" "h = heights ! i"
      by (auto simp: in_set_conv_nth)
    then show "h < max_height"
      using nth [of i] below [of i] len by simp
  qed
  have b: "\<forall>k::nat. min_height + int k * interval < max_height \<longrightarrow>
             min_height + int k * interval \<in> set heights"
  proof (intro allI impI)
    fix k :: nat assume "min_height + int k * interval < max_height"
    then have "k < length heights"
      using below [of k] len by simp
    then show "min_height + int k * interval \<in> set heights"
      using nth [of k] by (metis nth_mem)
  qed
  show ?thesis
    using len nth a b res(2,3) by blast
qed

theorem C3_height_sweep_witness:
  "column_pr_over_height_range 200 800 200 ''Column A'' 1000 200000000 100000000 200000 350 =
     Inr ([200, 400, 600],
          [spec_P_r 1000 200000000 100000000 1 1 200 200000 350 1.34 0.9,
           spec_P_r 1000 200000000 100000000 1 1 400 200000 350 1.34 0.9,
           spec_P_r 1000 200000000 100000000 1 1 600 200000 350 1.34 0.9])
   \<and> length [200, 400, 600 :: int] = nat \<lceil>real_of_int (800 - 200) / real_of_int 200\<rceil>
   \<and> [200, 400, 600 :: int] ! 2 = 200 + int 2 * 200
   \<and> (600 :: int) < 800
   \<and> (200 :: int) + int 1 * 200 \<in> set [200, 400, 600]
   \<and> factored_axial_capacity 1000 200000000 100000000 1 1 (real_of_int ([200, 400, 600] ! 1))
        200000 350 1.34 0.9 =
       Inr ([spec_P_r 1000 200000000 100000000 1 1 200 200000 350 1.34 0.9,
             spec_P_r 1000 200000000 100000000 1 1 400 200000 350 1.34 0.9,
             spec_P_r 1000 200000000 100000000 1 1 600 200000 350 1.34 0.9] ! 1)"
proof -
  have pos: "(0::int) < 200" by simp
  note c = C3_height_sweep [OF pos sweep_example]
  have len: "length [200, 400, 600 :: int] = nat \<lceil>real_of_int (800 - 200) / real_of_int 200\<rceil>"
    using c by (rule conjunct1)
  have nth: "[200, 400, 600 :: int] ! 2 = 200 + int 2 * 200"
    using c [THEN conjunct2, THEN conjunct1, rule_format, of 2] by simp
  have below: "(600 :: int) < 800"
    using c [THEN conjunct2, THEN conjunct2, THEN conjunct1] by simp
  have mem: "(200 :: int) + int 1 * 200 \<in> set [200, 400, 600]"
    using c [THEN conjunct2, THEN conjunct2, THEN conjunct2, THEN conjunct1, rule_format, of 1]
    by simp
  have cap: "factored_axial_capacity 1000 200000000 100000000 1 1
        (real_of_int ([200, 400, 600] ! 1)) 200000 350 1.34 0.9 =
       Inr ([spec_P_r 1000 200000000 100000000 1 1 200 200000 350 1.34 0.9,
             spec_P_r 1000 200000000 100000000 1 1 400 200000 350 1.34 0.9,
             spec_P_r 1000 200000000 100000000 1 1 600 200000 350 1.34 0.9] ! 1)"
    using c [THEN conjunct2, THEN conjunct2, THEN conjunct2, THEN conjunct2, THEN conjunct2,
             rule_format, of 1]
    by simp
  show ?thesis
    using sweep_example len nth below mem cap by (intro conjI)
qed

text \<open>
  The count of the claim as written is negative when \<open>max_height < min_height\<close>, where
  the sweep returns two empty lists.
\<close>

theorem C3_counterexample:
  "column_pr_over_height_range 5 0 1 ''Column A'' 1000 200000000 100000000 200000 350 = Inr ([], [])
   \<and> int (length ([] :: int list)) \<noteq> \<lceil>real_of_int (0 - 5) / real_of_int 1\<rceil>"
  by (simp add: column_pr_over_height_range_def py_range_def)

text \<open>
  C4 (amended). When \<open>compare_two_columns\<close> returns, the dictionary has exactly the keys
  \<open>a\<close> and \<open>b\<close> (lower case); the value at \<open>a\<close> is what
  \<open>column_pr_over_height_range\<close> returns for the parameters of column A and the value at
  \<open>b\<close> what it returns for those of column B; and the entry of one column is the same
  for any section parameters of the other column with which the call returns.
\<close>

theorem C4_two_independent_sweeps:
  assumes "compare_two_columns min_height max_height interval area_a i_x_a i_y_a E_a fy_a
             area_b i_x_b i_y_b E_b fy_b = Inr results"
  shows "dom results = {''a'', ''b''}
       \<and> (\<exists>sweep_a. column_pr_over_height_range min_height max_height interval ''Column A''
                       area_a i_x_a i_y_a E_a fy_a = Inr sweep_a
                   \<and> results ''a'' = Some sweep_a)
       \<and> (\<exists>sweep_b. column_pr_over_height_range min_height max_height interval ''Column B''
                       area_b i_x_b i_y_b E_b fy_b = Inr sweep_b
                   \<and> results ''b'' = Some sweep_b)
       \<and> (\<forall>area' i_x' i_y' E' fy' results'.
             compare_two_columns min_height max_height interval area_a i_x_a i_y_a E_a fy_a
               area' i_x' i_y' E' fy' = Inr results' \<longrightarrow> results' ''a'' = results ''a'')
       \<and> (\<forall>area' i_x' i_y' E' fy' results'.
             compare_two_columns min_height max_height interval area' i_x' i_y' E' fy'
               area_b i_x_b i_y_b E_b fy_b = Inr results' \<longrightarrow> results' ''b'' = results ''b'')"
proof -
  have parts: "\<exists>sa sb. column_pr_over_height_range mn mx iv ''Column A'' aa xa ya ea fa = Inr sa
        \<and> column_pr_over_height_range mn mx iv ''Column B'' ab xb yb eb fb = Inr sb
        \<and> r = Map.empty(''a'' \<mapsto> sa, ''b'' \<mapsto> sb)"
    if "compare_two_columns mn mx iv aa xa ya ea fa ab xb yb eb fb = Inr r"
    for mn mx iv aa xa ya ea fa ab xb yb eb fb r
    using that unfolding compare_two_columns_def
    by (cases "column_pr_over_height_range mn mx iv ''Column A'' aa xa ya ea fa";
        cases "column_pr_over_height_range mn mx iv ''Column B'' ab xb yb eb fb")
       (auto split: prod.splits)
  from parts [OF assms] obtain sa sb where
    sa: "column_pr_over_height_range min_height max_height interval ''Column A''
           area_a i_x_a i_y_a E_a fy_a = Inr sa"
    and sb: "column_pr_over_height_range min_height max_height interval ''Column B''
           area_b i_x_b i_y_b E_b fy_b = Inr sb"
    and r: "results = Map.empty(''a'' \<mapsto> sa, ''b'' \<mapsto> sb)"
    by blast
  have d: "dom results = {''a'', ''b''}"
    unfolding r by auto
  have a: "results ''a'' = Some sa" and b: "results ''b'' = Some sb"
    unfolding r by simp_all
  have ia: "results' ''a'' = results ''a''"
    if "compare_two_columns min_height max_height interval area_a i_x_a i_y_a E_a fy_a
               area' i_x' i_y' E' fy' = Inr results'" for area' i_x' i_y' E' fy' results'
    using parts [OF that] sa a by auto
  have ib: "results' ''b'' = results ''b''"
    if "compare_two_columns min_height max_height interval area' i_x' i_y' E' fy'
               area_b i_x_b i_y_b E_b fy_b = Inr results'" for area' i_x' i_y' E' fy' results'
    using parts [OF that] sb b by auto
  show ?thesis
    using d sa sb a b ia ib by blast
qed

theorem C4_two_independent_sweeps_witness:
  "\<exists>results sweep_a sweep_b.
     compare_two_columns 200 800 200 1000 200000000 100000000 200000 350
       500 100000000 50000000 200000 350 = Inr results
     \<and> dom results = {''a'', ''b''}
     \<and> column_pr_over_height_range 200 800 200 ''Column A'' 1000 200000000 100000000 200000 350 =
         Inr sweep_a
     \<and> results ''a'' = Some sweep_a
     \<and> column_pr_over_height_range 200 800 200 ''Column B'' 500 100000000 50000000 200000 350 =
         Inr sweep_b
     \<and> results ''b'' = Some sweep_b"
proof -
  from compare_example obtain results where
    r: "compare_two_columns 200 800 200 1000 200000000 100000000 200000 350
          500 100000000 50000000 200000 350 = Inr results"
    by (rule that)
  note c = C4_two_independent_sweeps [OF r]
  from c [THEN conjunct2, THEN conjunct1] obtain sweep_a where
    a: "column_pr_over_height_range 200 800 200 ''Column A'' 1000 200000000 100000000 200000 350 =
          Inr sweep_a" "results ''a'' = Some sweep_a"
    by (elim exE conjE)
  from c [THEN conjunct2, THEN conjunct2, THEN conjunct1] obtain sweep_b where
    b: "column_pr_over_height_range 200 800 200 ''Column B'' 500 100000000 50000000 200000 350 =
          Inr sweep_b" "results ''b'' = Some sweep_b"
    by (elim exE conjE)
  show ?thesis
    using r c [THEN conjunct1] a b by (intro exI conjI)
qed

text \<open>
  The keys \<open>A\<close> and \<open>B\<close> of the claim as written are not in the dictionary. And the
  two sweeps run in one call: with the same column A, a column B of area 0 ends the call
  with ZeroDivisionError, so that no entry for A is returned either.
\<close>

theorem C4_counterexample:
  "compare_two_columns 200 400 200 1000 200000000 100000000 200000 350
       500 100000000 50000000 200000 350 =
     Inr (Map.empty
       (''a'' \<mapsto> ([200], [spec_P_r 1000 200000000 100000000 1 1 200 200000 350 1.34 0.9]),
        ''b'' \<mapsto> ([200], [spec_P_r 500 100000000 50000000 1 1 200 200000 350 1.34 0.9])))
   \<and> (Map.empty
       (''a'' \<mapsto> ([200 :: int], [spec_P_r 1000 200000000 100000000 1 1 200 200000 350 1.34 0.9]),
        ''b'' \<mapsto> ([200], [spec_P_r 500 100000000 50000000 1 1 200 200000 350 1.34 0.9]))) ''A'' = None
   \<and> (Map.empty
       (''a'' \<mapsto> ([200 :: int], [spec_P_r 1000 200000000 100000000 1 1 200 200000 350 1.34 0.9]),
        ''b'' \<mapsto> ([200], [spec_P_r 500 100000000 50000000 1 1 200 200000 350 1.34 0.9]))) ''B'' = None
   \<and> compare_two_columns 200 400 200 1000 200000000 100000000 200000 350
       0 100000000 50000000 200000 350 = Inl ZeroDivisionError"
  by (simp add: compare_two_columns_def column_pr_over_height_range_def py_range_def
      SteelColumn_factored_axial_capacity_def fac_positive_inputs fac_area_zero)

section \<open>The resistance factor of a steel column\<close>

text \<open>
  \<open>SteelColumn.factored_axial_capacity\<close> does not read the column's own \<open>phi\<close>: the
  result is the same for every value of that field, the free function's default 0.9 being
  used throughout.
\<close>

theorem SteelColumn_capacity_ignores_phi:
  "SteelColumn_factored_axial_capacity (self\<lparr>sc_phi := phi'\<rparr>) n =
     SteelColumn_factored_axial_capacity self n
   \<and> SteelColumn_factored_axial_capacity self n =
     factored_axial_capacity (col_area self) (col_Ix self) (col_Iy self) (col_kx self)
       (col_ky self) (col_height self) (col_E self) (sc_fy self) n 0.9"
  by (simp add: SteelColumn_factored_axial_capacity_def)

end
